theory Spec2Isabelle
  imports Complex_Main "HOL-Library.Sublist"
begin

section \<open>Numbers\<close>

text \<open>
  A TypeScript \<open>number\<close> and a GLSL \<open>float\<close>. Finite values are carried as exact
  rationals; the three non-finite values keep what division by zero produces. Rounding
  to the nearest double and the sign of zero are not represented.
\<close>

datatype number = Fin rat | PosInf | NegInf | NaN

fun js_neg :: "number \<Rightarrow> number" where
  "js_neg (Fin a) = Fin (- a)"
| "js_neg PosInf = NegInf"
| "js_neg NegInf = PosInf"
| "js_neg NaN = NaN"

fun js_add :: "number \<Rightarrow> number \<Rightarrow> number" where
  "js_add NaN _ = NaN"
| "js_add _ NaN = NaN"
| "js_add (Fin a) (Fin b) = Fin (a + b)"
| "js_add PosInf NegInf = NaN"
| "js_add NegInf PosInf = NaN"
| "js_add PosInf _ = PosInf"
| "js_add NegInf _ = NegInf"
| "js_add (Fin a) b = b"

definition js_sub :: "number \<Rightarrow> number \<Rightarrow> number" where
  "js_sub a b = js_add a (js_neg b)"

definition signed_inf :: "bool \<Rightarrow> number" where
  "signed_inf positive = (if positive then PosInf else NegInf)"

fun js_mul :: "number \<Rightarrow> number \<Rightarrow> number" where
  "js_mul NaN _ = NaN"
| "js_mul _ NaN = NaN"
| "js_mul (Fin a) (Fin b) = Fin (a * b)"
| "js_mul PosInf (Fin b) = (if b = 0 then NaN else signed_inf (0 < b))"
| "js_mul NegInf (Fin b) = (if b = 0 then NaN else signed_inf (b < 0))"
| "js_mul (Fin a) PosInf = (if a = 0 then NaN else signed_inf (0 < a))"
| "js_mul (Fin a) NegInf = (if a = 0 then NaN else signed_inf (a < 0))"
| "js_mul PosInf PosInf = PosInf"
| "js_mul NegInf NegInf = PosInf"
| "js_mul PosInf NegInf = NegInf"
| "js_mul NegInf PosInf = NegInf"

fun js_div :: "number \<Rightarrow> number \<Rightarrow> number" where
  "js_div NaN _ = NaN"
| "js_div _ NaN = NaN"
| "js_div (Fin a) (Fin b) =
     (if b = 0 then (if a = 0 then NaN else signed_inf (0 < a)) else Fin (a / b))"
| "js_div (Fin a) _ = Fin 0"
| "js_div PosInf (Fin b) = signed_inf (0 \<le> b)"
| "js_div NegInf (Fin b) = signed_inf (b < 0)"
| "js_div _ _ = NaN"

type_synonym vec2 = "number \<times> number"
type_synonym vec4 = "number \<times> number \<times> number \<times> number"

section \<open>The graphics interface and the host page\<close>

type_synonym handle = nat

datatype shader_type = VERTEX_SHADER | FRAGMENT_SHADER
datatype shader_param = COMPILE_STATUS
datatype program_param = LINK_STATUS
datatype buffer_target = ARRAY_BUFFER
datatype buffer_usage = STATIC_DRAW
datatype clear_mask = COLOR_BUFFER_BIT
datatype component_type = FLOAT
datatype draw_mode = TRIANGLES

text \<open>
  The entry points of the rendering context. \<open>DeleteProgram\<close> and \<open>DeleteBuffer\<close>
  belong to the interface although no function below issues them.
\<close>

datatype gl_call =
    CreateShader shader_type
  | ShaderSource handle string
  | CompileShader handle
  | GetShaderParameter handle shader_param
  | GetShaderInfoLog handle
  | DeleteShader handle
  | CreateProgram
  | AttachShader handle handle
  | LinkProgram handle
  | GetProgramParameter handle program_param
  | GetProgramInfoLog handle
  | DeleteProgram handle
  | GetAttribLocation handle string
  | GetUniformLocation handle string
  | CreateBuffer
  | BindBuffer buffer_target "handle option"
  | BufferData buffer_target "number list" buffer_usage
  | DeleteBuffer handle
  | ClearColor number number number number
  | Clear clear_mask
  | UseProgram handle
  | VertexAttribPointer int nat component_type bool nat nat
  | EnableVertexAttribArray int
  | Uniform2f "handle option" number number
  | DrawArrays draw_mode nat nat

record canvas =
  width :: nat
  height :: nat

record programInfo =
  program :: handle
  vertexPosition :: int
  topVertex :: "handle option"

record buffers =
  position :: "handle option"

text \<open>The closure \<open>handleMouseMove\<close>: the values it captures from the effect.\<close>

record listener =
  l_canvas :: canvas
  l_programInfo :: programInfo
  l_buffers :: buffers

datatype effect =
    GetContext string
  | Gl gl_call
  | ConsoleError string "string option"
  | AddEventListener string listener
  | RemoveEventListener string listener

text \<open>
  What the browser and the driver answer during one mount: whether the canvas ref is
  attached, whether a context, a shader object, a program object and a buffer object
  can be had, what the compiler and the linker report, and where the attribute and the
  uniform are located.
\<close>

record env =
  canvasRef_current :: "canvas option"
  context_available :: bool
  shader_created :: "shader_type \<Rightarrow> bool"
  compile_status :: "shader_type \<Rightarrow> string \<Rightarrow> bool"
  shader_info_log :: "shader_type \<Rightarrow> string \<Rightarrow> string option"
  program_created :: bool
  link_status :: bool
  program_info_log :: "string option"
  attrib_location :: "string \<Rightarrow> int"
  uniform_location :: "string \<Rightarrow> handle option"
  buffer_created :: bool

text \<open>
  The state the component runs in: every call it made, in order; the next fresh object
  handle; the cell \<open>topVertexRef.current\<close>; the mousemove listeners of the canvas.
\<close>

record world =
  trace :: "effect list"
  next_handle :: handle
  topVertexRef :: vec2
  listeners :: "listener list"

text \<open>
  A pointer-move event as the handler reads it: the client coordinates of the event and
  the left and top of the bounding rectangle the canvas has at that moment.
\<close>

record pointer_input =
  clientX :: rat
  clientY :: rat
  rect_left :: rat
  rect_top :: rat

definition emit :: "effect \<Rightarrow> world \<Rightarrow> world" where
  "emit e w = w\<lparr>trace := trace w @ [e]\<rparr>"

definition gl :: "gl_call \<Rightarrow> world \<Rightarrow> world" where
  "gl c w = emit (Gl c) w"

definition fresh :: "world \<Rightarrow> handle \<times> world" where
  "fresh w = (next_handle w, w\<lparr>next_handle := Suc (next_handle w)\<rparr>)"

definition addEventListener :: "listener \<Rightarrow> world \<Rightarrow> world" where
  "addEventListener h w =
     (emit (AddEventListener ''mousemove'' h) w)
       \<lparr>listeners := (if h \<in> set (listeners w) then listeners w else listeners w @ [h])\<rparr>"

definition removeEventListener :: "listener \<Rightarrow> world \<Rightarrow> world" where
  "removeEventListener h w =
     (emit (RemoveEventListener ''mousemove'' h) w)
       \<lparr>listeners := filter (\<lambda>k. k \<noteq> h) (listeners w)\<rparr>"

section \<open>The component\<close>

definition vsSource :: string where
  "vsSource = ''
      attribute vec4 aVertexPosition;
      uniform vec2 uTopVertex;
      void main(void) {
        if (aVertexPosition.y == 1.0) {
          gl_Position = vec4(uTopVertex, 0.0, 1.0);
        } else {
          gl_Position = aVertexPosition;
        }
      }
    ''"

definition fsSource :: string where
  "fsSource = ''
      void main(void) {
        gl_FragColor = vec4(1.0, 0.0, 0.0, 1.0); // Red color
      }
    ''"

text \<open>
  The two stages as functions: \<open>vs_main\<close> from the attribute and the uniform to
  \<open>gl_Position\<close>, \<open>fs_main\<close> from the fragment's window position (which the source
  does not read) to \<open>gl_FragColor\<close>.
\<close>

definition vs_main :: "vec4 \<Rightarrow> vec2 \<Rightarrow> vec4" where
  "vs_main aVertexPosition uTopVertex =
     (case aVertexPosition of (x, y, z, w) \<Rightarrow>
        if y = Fin 1 then (fst uTopVertex, snd uTopVertex, Fin 0, Fin 1)
        else aVertexPosition)"

definition fs_main :: "vec4 \<Rightarrow> vec4" where
  "fs_main fragCoord = (Fin 1, Fin 0, Fin 0, Fin 1)"

definition source_of :: "shader_type \<Rightarrow> string" where
  "source_of t = (case t of VERTEX_SHADER \<Rightarrow> vsSource | FRAGMENT_SHADER \<Rightarrow> fsSource)"

definition loadShader :: "env \<Rightarrow> shader_type \<Rightarrow> string \<Rightarrow> world \<Rightarrow> handle option \<times> world" where
  "loadShader e t source w =
     (let w1 = gl (CreateShader t) w in
      if \<not> shader_created e t then (None, w1)
      else
        let (shader, w2) = fresh w1;
            w3 = gl (ShaderSource shader source) w2;
            w4 = gl (CompileShader shader) w3;
            w5 = gl (GetShaderParameter shader COMPILE_STATUS) w4
        in if \<not> compile_status e t source then
             let w6 = gl (GetShaderInfoLog shader) w5;
                 w7 = emit (ConsoleError ''An error occurred compiling the shaders:''
                              (shader_info_log e t source)) w6;
                 w8 = gl (DeleteShader shader) w7
             in (None, w8)
           else (Some shader, w5))"

definition initShaderProgram :: "env \<Rightarrow> string \<Rightarrow> string \<Rightarrow> world \<Rightarrow> handle option \<times> world" where
  "initShaderProgram e vs fs w =
     (let (vertexShader, w1) = loadShader e VERTEX_SHADER vs w;
          (fragmentShader, w2) = loadShader e FRAGMENT_SHADER fs w1
      in case (vertexShader, fragmentShader) of
           (Some v, Some f) \<Rightarrow>
             (let w3 = gl CreateProgram w2 in
              if \<not> program_created e then (None, w3)
              else
                let (shaderProgram, w4) = fresh w3;
                    w5 = gl (AttachShader shaderProgram v) w4;
                    w6 = gl (AttachShader shaderProgram f) w5;
                    w7 = gl (LinkProgram shaderProgram) w6;
                    w8 = gl (GetProgramParameter shaderProgram LINK_STATUS) w7
                in if \<not> link_status e then
                     let w9 = gl (GetProgramInfoLog shaderProgram) w8;
                         w10 = emit (ConsoleError ''Unable to initialize the shader program:''
                                       (program_info_log e)) w9
                     in (None, w10)
                   else (Some shaderProgram, w8))
         | _ \<Rightarrow> (None, w2))"

definition positions :: "number list" where
  "positions = [Fin 0, Fin 1, Fin (- 1), Fin (- 1), Fin 1, Fin (- 1)]"

definition initBuffers :: "env \<Rightarrow> world \<Rightarrow> buffers \<times> world" where
  "initBuffers e w =
     (let w1 = gl CreateBuffer w;
          (positionBuffer, w2) =
             (if buffer_created e then (let (b, w') = fresh w1 in (Some b, w')) else (None, w1));
          w3 = gl (BindBuffer ARRAY_BUFFER positionBuffer) w2;
          w4 = gl (BufferData ARRAY_BUFFER positions STATIC_DRAW) w3
      in (\<lparr>position = positionBuffer\<rparr>, w4))"

definition drawScene :: "programInfo \<Rightarrow> buffers \<Rightarrow> vec2 \<Rightarrow> world \<Rightarrow> world" where
  "drawScene pinfo bufs tv w =
     (let w1 = gl (ClearColor (Fin 0) (Fin 0) (Fin 0) (Fin 1)) w;
          w2 = gl (Clear COLOR_BUFFER_BIT) w1;
          w3 = gl (UseProgram (program pinfo)) w2;
          w4 = gl (BindBuffer ARRAY_BUFFER (position bufs)) w3;
          w5 = gl (VertexAttribPointer (vertexPosition pinfo) 2 FLOAT False 0 0) w4;
          w6 = gl (EnableVertexAttribArray (vertexPosition pinfo)) w5;
          w7 = gl (Uniform2f (topVertex pinfo) (fst tv) (snd tv)) w6
      in gl (DrawArrays TRIANGLES 0 3) w7)"

definition handleMouseMove :: "listener \<Rightarrow> pointer_input \<Rightarrow> world \<Rightarrow> world" where
  "handleMouseMove h event w =
     (let x = js_sub (js_mul (js_div (js_sub (Fin (clientX event)) (Fin (rect_left event)))
                                     (Fin (of_nat (width (l_canvas h))))) (Fin 2)) (Fin 1);
          y = js_sub (Fin 1) (js_mul (js_div (js_sub (Fin (clientY event)) (Fin (rect_top event)))
                                             (Fin (of_nat (height (l_canvas h))))) (Fin 2));
          w1 = w\<lparr>topVertexRef := (x, y)\<rparr>
      in drawScene (l_programInfo h) (l_buffers h) (topVertexRef w1) w1)"

text \<open>
  The effect of the component. It returns the listener its cleanup function will
  remove, or \<open>None\<close> where the source returns without a cleanup.
\<close>

definition useEffect :: "env \<Rightarrow> world \<Rightarrow> listener option \<times> world" where
  "useEffect e w =
     (case canvasRef_current e of
        None \<Rightarrow> (None, w)
      | Some canvas \<Rightarrow>
          let w0 = emit (GetContext ''webgl'') w in
          if \<not> context_available e then
            (None, emit (ConsoleError ''WebGL isn't available'' None) w0)
          else
            (case initShaderProgram e vsSource fsSource w0 of
               (None, w1) \<Rightarrow> (None, w1)
             | (Some shaderProgram, w1) \<Rightarrow>
                 let w2 = gl (GetAttribLocation shaderProgram ''aVertexPosition'') w1;
                     w3 = gl (GetUniformLocation shaderProgram ''uTopVertex'') w2;
                     pinfo = \<lparr>program = shaderProgram,
                              vertexPosition = attrib_location e ''aVertexPosition'',
                              topVertex = uniform_location e ''uTopVertex''\<rparr>;
                     (bufs, w4) = initBuffers e w3;
                     w5 = drawScene pinfo bufs (topVertexRef w4) w4;
                     h = \<lparr>l_canvas = canvas, l_programInfo = pinfo, l_buffers = bufs\<rparr>;
                     w6 = addEventListener h w5
                 in (Some h, w6)))"

text \<open>The canvas element the component renders, and the component before its effect ran.\<close>

definition rendered_canvas :: canvas where
  "rendered_canvas = \<lparr>width = 640, height = 480\<rparr>"

definition WebGLCanvas :: world where
  "WebGLCanvas = \<lparr>trace = [], next_handle = 0, topVertexRef = (Fin 0, Fin 1), listeners = []\<rparr>"

definition mount :: "env \<Rightarrow> listener option \<times> world" where
  "mount e = useEffect e WebGLCanvas"

definition unmount :: "listener option \<Rightarrow> world \<Rightarrow> world" where
  "unmount cleanup w = (case cleanup of None \<Rightarrow> w | Some h \<Rightarrow> removeEventListener h w)"

text \<open>Delivery of one pointer-move event to the listeners registered at that moment.\<close>

definition dispatchEvent :: "pointer_input \<Rightarrow> world \<Rightarrow> world" where
  "dispatchEvent event w = foldl (\<lambda>s h. handleMouseMove h event s) w (listeners w)"

definition dispatchAll :: "pointer_input list \<Rightarrow> world \<Rightarrow> world" where
  "dispatchAll events w = foldl (\<lambda>s ev. dispatchEvent ev s) w events"

section \<open>Observations on traces\<close>

text \<open>The commands that only the frame renderer issues.\<close>

fun is_render :: "effect \<Rightarrow> bool" where
  "is_render (Gl (ClearColor _ _ _ _)) = True"
| "is_render (Gl (Clear _)) = True"
| "is_render (Gl (UseProgram _)) = True"
| "is_render (Gl (VertexAttribPointer _ _ _ _ _ _)) = True"
| "is_render (Gl (EnableVertexAttribArray _)) = True"
| "is_render (Gl (Uniform2f _ _ _)) = True"
| "is_render (Gl (DrawArrays _ _ _)) = True"
| "is_render _ = False"

fun is_draw :: "effect \<Rightarrow> bool" where
  "is_draw (Gl (DrawArrays _ _ _)) = True"
| "is_draw _ = False"

fun is_listen :: "effect \<Rightarrow> bool" where
  "is_listen (AddEventListener _ _) = True"
| "is_listen _ = False"

fun is_upload :: "effect \<Rightarrow> bool" where
  "is_upload (Gl (BufferData _ _ _)) = True"
| "is_upload _ = False"


fun is_error :: "effect \<Rightarrow> bool" where
  "is_error (ConsoleError _ _) = True"
| "is_error _ = False"

text \<open>The commands of one frame drawn for the listener \<open>h\<close> with top vertex \<open>tv\<close>.\<close>

definition frame :: "listener \<Rightarrow> vec2 \<Rightarrow> effect list" where
  "frame h tv =
     [Gl (ClearColor (Fin 0) (Fin 0) (Fin 0) (Fin 1)), Gl (Clear COLOR_BUFFER_BIT),
      Gl (UseProgram (program (l_programInfo h))),
      Gl (BindBuffer ARRAY_BUFFER (position (l_buffers h))),
      Gl (VertexAttribPointer (vertexPosition (l_programInfo h)) 2 FLOAT False 0 0),
      Gl (EnableVertexAttribArray (vertexPosition (l_programInfo h))),
      Gl (Uniform2f (topVertex (l_programInfo h)) (fst tv) (snd tv)),
      Gl (DrawArrays TRIANGLES 0 3)]"

text \<open>
  The three failures of initialization: the step is reached and reports failure.
  A stage fails to compile when its shader object exists and its compile status is
  false; linking fails when both stages compiled, the program object exists and its
  link status is false.
\<close>

definition context_acquisition_fails :: "env \<Rightarrow> bool" where
  "context_acquisition_fails e \<longleftrightarrow> canvasRef_current e \<noteq> None \<and> \<not> context_available e"

definition stage_fails_to_compile :: "env \<Rightarrow> shader_type \<Rightarrow> bool" where
  "stage_fails_to_compile e t \<longleftrightarrow>
     canvasRef_current e \<noteq> None \<and> context_available e
     \<and> shader_created e t \<and> \<not> compile_status e t (source_of t)"

definition linking_fails :: "env \<Rightarrow> bool" where
  "linking_fails e \<longleftrightarrow>
     canvasRef_current e \<noteq> None \<and> context_available e
     \<and> shader_created e VERTEX_SHADER \<and> compile_status e VERTEX_SHADER vsSource
     \<and> shader_created e FRAGMENT_SHADER \<and> compile_status e FRAGMENT_SHADER fsSource
     \<and> program_created e \<and> \<not> link_status e"


section \<open>Sample inputs\<close>

definition ev0 :: pointer_input where
  "ev0 = \<lparr>clientX = 330, clientY = 20, rect_left = 10, rect_top = 20\<rparr>"

definition h0 :: listener where
  "h0 = \<lparr>l_canvas = rendered_canvas,
         l_programInfo = \<lparr>program = 2, vertexPosition = 0, topVertex = Some 0\<rparr>,
         l_buffers = \<lparr>position = Some 3\<rparr>\<rparr>"

definition env_ok :: env where
  "env_ok = \<lparr>canvasRef_current = Some rendered_canvas, context_available = True,
      shader_created = (\<lambda>t. True), compile_status = (\<lambda>t s. True),
      shader_info_log = (\<lambda>t s. Some []), program_created = True, link_status = True,
      program_info_log = Some [], attrib_location = (\<lambda>n. 0),
      uniform_location = (\<lambda>n. Some 0), buffer_created = True\<rparr>"

definition env_vs_invalid :: env where
  "env_vs_invalid = env_ok\<lparr>compile_status := (\<lambda>t s. t \<noteq> VERTEX_SHADER),
      shader_info_log := (\<lambda>t s. Some ''ERROR: 0:1: syntax error'')\<rparr>"

definition env_both_invalid :: env where
  "env_both_invalid = env_ok\<lparr>compile_status := (\<lambda>t s. False),
      shader_info_log := (\<lambda>t s. case t of VERTEX_SHADER \<Rightarrow> Some ''ERROR: vertex''
                                       | FRAGMENT_SHADER \<Rightarrow> Some ''ERROR: fragment'')\<rparr>"

section \<open>Properties\<close>

subsection \<open>The frame renderer\<close>

lemma drawScene_unfold:
  "drawScene pinfo bufs tv w =
     w\<lparr>trace := trace w @
        [Gl (ClearColor (Fin 0) (Fin 0) (Fin 0) (Fin 1)), Gl (Clear COLOR_BUFFER_BIT),
         Gl (UseProgram (program pinfo)), Gl (BindBuffer ARRAY_BUFFER (position bufs)),
         Gl (VertexAttribPointer (vertexPosition pinfo) 2 FLOAT False 0 0),
         Gl (EnableVertexAttribArray (vertexPosition pinfo)),
         Gl (Uniform2f (topVertex pinfo) (fst tv) (snd tv)),
         Gl (DrawArrays TRIANGLES 0 3)]\<rparr>"
  by (simp add: drawScene_def gl_def emit_def)

text \<open>
  C8. Every invocation of the frame renderer with top vertex \<open>(x, y)\<close> appends exactly
  these eight commands, in this order, to what was issued before, and changes nothing
  else: clear colour opaque black, clear, use the program, bind the vertex buffer,
  attribute layout of 2 floats per vertex (not normalised, stride 0, offset 0), enable
  the attribute, uniform set to \<open>(x, y)\<close>, draw 3 vertices as triangles from offset 0.
\<close>

theorem drawScene_commands:
  "drawScene pinfo bufs (x, y) w =
     w\<lparr>trace := trace w @
        [Gl (ClearColor (Fin 0) (Fin 0) (Fin 0) (Fin 1)), Gl (Clear COLOR_BUFFER_BIT),
         Gl (UseProgram (program pinfo)), Gl (BindBuffer ARRAY_BUFFER (position bufs)),
         Gl (VertexAttribPointer (vertexPosition pinfo) 2 FLOAT False 0 0),
         Gl (EnableVertexAttribArray (vertexPosition pinfo)),
         Gl (Uniform2f (topVertex pinfo) x y),
         Gl (DrawArrays TRIANGLES 0 3)]\<rparr>"
  by (simp add: drawScene_def gl_def emit_def)

subsection \<open>The shader stages\<close>

text \<open>
  C7. For every vertex position \<open>(x, y, z, w)\<close> and uniform \<open>(ux, uy)\<close> the vertex stage
  outputs \<open>(ux, uy, 0, 1)\<close> when \<open>y\<close> is exactly 1 and the position unchanged otherwise;
  the fragment stage outputs opaque red \<open>(1, 0, 0, 1)\<close> at every fragment.
\<close>

theorem shader_stages:
  "vs_main (x, y, z, w) (ux, uy) = (if y = Fin 1 then (ux, uy, Fin 0, Fin 1) else (x, y, z, w))
   \<and> fs_main fragCoord = (Fin 1, Fin 0, Fin 0, Fin 1)"
  by (simp add: vs_main_def fs_main_def)

subsection \<open>The pointer-move handler\<close>



text \<open>
  C2. For a canvas of positive width \<open>W\<close> and height \<open>H\<close> and an offset with
  \<open>0 \<le> px \<le> W\<close> and \<open>0 \<le> py \<le> H\<close> the handler stores finite coordinates \<open>(x, y)\<close>
  with \<open>-1 \<le> x \<le> 1\<close> and \<open>-1 \<le> y \<le> 1\<close>; offset \<open>(0, 0)\<close> gives \<open>(-1, 1)\<close>,
  \<open>(W, H)\<close> gives \<open>(1, -1)\<close>, \<open>(W/2, H/2)\<close> gives \<open>(0, 0)\<close> and \<open>(W/2, 0)\<close> gives
  \<open>(0, 1)\<close>.
\<close>

theorem transform_range:
  assumes "0 < width (l_canvas h)" and "0 < height (l_canvas h)"
    and "px = clientX event - rect_left event" and "py = clientY event - rect_top event"
    and "0 \<le> px" and "px \<le> of_nat (width (l_canvas h))"
    and "0 \<le> py" and "py \<le> of_nat (height (l_canvas h))"
  shows "\<exists>x y. topVertexRef (handleMouseMove h event w) = (Fin x, Fin y)
           \<and> - 1 \<le> x \<and> x \<le> 1 \<and> - 1 \<le> y \<and> y \<le> 1
           \<and> (px = 0 \<and> py = 0 \<longrightarrow> x = - 1 \<and> y = 1)
           \<and> (px = of_nat (width (l_canvas h)) \<and> py = of_nat (height (l_canvas h))
                 \<longrightarrow> x = 1 \<and> y = - 1)
           \<and> (px = of_nat (width (l_canvas h)) / 2 \<and> py = of_nat (height (l_canvas h)) / 2
                 \<longrightarrow> x = 0 \<and> y = 0)
           \<and> (px = of_nat (width (l_canvas h)) / 2 \<and> py = 0 \<longrightarrow> x = 0 \<and> y = 1)"
proof -
  define W :: rat where "W = of_nat (width (l_canvas h))"
  define H :: rat where "H = of_nat (height (l_canvas h))"
  have W: "0 < W" and H: "0 < H" using assms(1,2) by (simp_all add: W_def H_def)
  have pxW: "px \<le> W" and pyH: "py \<le> H" using assms(6,8) by (simp_all add: W_def H_def)
  have tv: "topVertexRef (handleMouseMove h event w) = (Fin (px / W * 2 - 1), Fin (1 - py / H * 2))"
    using W H by (simp add: handleMouseMove_def drawScene_unfold js_sub_def Let_def W_def H_def assms(3,4))
  define x where "x = px / W * 2 - 1"
  define y where "y = 1 - py / H * 2"
  have x0: "0 \<le> px / W" using assms(5) W by simp
  have x1: "px / W \<le> 1" using pxW W by simp
  have y0: "0 \<le> py / H" using assms(7) H by simp
  have y1: "py / H \<le> 1" using pyH H by simp
  have lin: "- 1 \<le> a * 2 - 1 \<and> a * 2 - 1 \<le> 1 \<and> - 1 \<le> 1 - a * 2 \<and> 1 - a * 2 \<le> 1"
    if "0 \<le> a" and "a \<le> 1" for a :: rat
    using that by simp
  have bndx: "- 1 \<le> x \<and> x \<le> 1" using lin [OF x0 x1] unfolding x_def by blast
  have bndy: "- 1 \<le> y \<and> y \<le> 1" using lin [OF y0 y1] unfolding y_def by blast
  have cx: "px = 0 \<Longrightarrow> x = - 1" "px = W \<Longrightarrow> x = 1" "px = W / 2 \<Longrightarrow> x = 0"
    using W by (simp_all add: x_def)
  have cy: "py = 0 \<Longrightarrow> y = 1" "py = H \<Longrightarrow> y = - 1" "py = H / 2 \<Longrightarrow> y = 0"
    using H by (simp_all add: y_def)
  have tv': "topVertexRef (handleMouseMove h event w) = (Fin x, Fin y)"
    using tv by (simp add: x_def y_def)
  show ?thesis
    unfolding W_def [symmetric] H_def [symmetric]
    using tv' bndx bndy cx cy by blast
qed


theorem transform_range_witness:
  "\<exists>x y. topVertexRef (handleMouseMove h0 ev0 WebGLCanvas) = (Fin x, Fin y)
         \<and> - 1 \<le> x \<and> x \<le> 1 \<and> - 1 \<le> y \<and> y \<le> 1 \<and> x = 0 \<and> y = 1"
  using transform_range [where h = h0 and event = ev0 and w = WebGLCanvas and px = 320 and py = 0]
  by (simp add: h0_def ev0_def rendered_canvas_def)

subsection \<open>Mounting\<close>

lemma loadShader_unfold:
  "loadShader e t s w =
     (if \<not> shader_created e t then (None, w\<lparr>trace := trace w @ [Gl (CreateShader t)]\<rparr>)
      else if \<not> compile_status e t s then
        (None, w\<lparr>trace := trace w @
           [Gl (CreateShader t), Gl (ShaderSource (next_handle w) s),
            Gl (CompileShader (next_handle w)),
            Gl (GetShaderParameter (next_handle w) COMPILE_STATUS),
            Gl (GetShaderInfoLog (next_handle w)),
            ConsoleError ''An error occurred compiling the shaders:'' (shader_info_log e t s),
            Gl (DeleteShader (next_handle w))],
          next_handle := Suc (next_handle w)\<rparr>)
      else
        (Some (next_handle w), w\<lparr>trace := trace w @
           [Gl (CreateShader t), Gl (ShaderSource (next_handle w) s),
            Gl (CompileShader (next_handle w)),
            Gl (GetShaderParameter (next_handle w) COMPILE_STATUS)],
          next_handle := Suc (next_handle w)\<rparr>))"
  by (simp add: loadShader_def gl_def emit_def fresh_def Let_def)

lemma initShaderProgram_success:
  assumes "shader_created e VERTEX_SHADER" "compile_status e VERTEX_SHADER vs"
    "shader_created e FRAGMENT_SHADER" "compile_status e FRAGMENT_SHADER fs"
    "program_created e" "link_status e"
  shows "initShaderProgram e vs fs w =
     (Some (next_handle w + 2), w\<lparr>trace := trace w @
        [Gl (CreateShader VERTEX_SHADER), Gl (ShaderSource (next_handle w) vs),
         Gl (CompileShader (next_handle w)),
         Gl (GetShaderParameter (next_handle w) COMPILE_STATUS),
         Gl (CreateShader FRAGMENT_SHADER), Gl (ShaderSource (next_handle w + 1) fs),
         Gl (CompileShader (next_handle w + 1)),
         Gl (GetShaderParameter (next_handle w + 1) COMPILE_STATUS),
         Gl CreateProgram,
         Gl (AttachShader (next_handle w + 2) (next_handle w)),
         Gl (AttachShader (next_handle w + 2) (next_handle w + 1)),
         Gl (LinkProgram (next_handle w + 2)),
         Gl (GetProgramParameter (next_handle w + 2) LINK_STATUS)],
       next_handle := next_handle w + 3\<rparr>)"
  using assms
  by (simp add: initShaderProgram_def loadShader_unfold gl_def emit_def fresh_def Let_def)

lemma initShaderProgram_Some:
  assumes "fst (initShaderProgram e vs fs w) = Some p"
  shows "shader_created e VERTEX_SHADER \<and> compile_status e VERTEX_SHADER vs
       \<and> shader_created e FRAGMENT_SHADER \<and> compile_status e FRAGMENT_SHADER fs
       \<and> program_created e \<and> link_status e"
  using assms
  by (simp add: initShaderProgram_def loadShader_unfold gl_def emit_def fresh_def Let_def
           split: if_splits)


lemma handleMouseMove_listeners [simp]:
  "listeners (handleMouseMove h ev w) = listeners w"
  by (simp add: handleMouseMove_def drawScene_unfold Let_def)

lemma handleMouseMove_trace:
  "trace (handleMouseMove h ev w) = trace w @ frame h (topVertexRef (handleMouseMove h ev w))"
  by (simp add: handleMouseMove_def drawScene_unfold frame_def Let_def)

lemma dispatchEvent_none: "listeners w = [] \<Longrightarrow> dispatchEvent ev w = w"
  by (simp add: dispatchEvent_def)

lemma dispatchEvent_single: "listeners w = [h] \<Longrightarrow> dispatchEvent ev w = handleMouseMove h ev w"
  by (simp add: dispatchEvent_def)

lemma dispatchAll_none: "listeners w = [] \<Longrightarrow> dispatchAll evs w = w"
  by (induction evs) (simp_all add: dispatchAll_def dispatchEvent_none)

lemma dispatchAll_Cons: "dispatchAll (ev # evs) w = dispatchAll evs (dispatchEvent ev w)"
  by (simp add: dispatchAll_def)

lemma dispatchAll_single:
  assumes "listeners w = [h]" and "P w" and "\<And>s ev. P s \<Longrightarrow> P (handleMouseMove h ev s)"
  shows "P (dispatchAll evs w) \<and> listeners (dispatchAll evs w) = [h]"
  using assms(1,2)
proof (induction evs arbitrary: w)
  case Nil
  then show ?case by (simp add: dispatchAll_def)
next
  case (Cons ev evs)
  have "listeners (handleMouseMove h ev w) = [h]" using Cons.prems(1) by simp
  moreover have "P (handleMouseMove h ev w)" using Cons.prems(2) by (rule assms(3))
  ultimately show ?case
    using Cons.IH [of "handleMouseMove h ev w"] Cons.prems(1)
    by (simp add: dispatchAll_Cons dispatchEvent_single)
qed

lemma initBuffers_unfold:
  "initBuffers e w =
     (\<lparr>position = (if buffer_created e then Some (next_handle w) else None)\<rparr>,
      w\<lparr>trace := trace w @
          [Gl CreateBuffer,
           Gl (BindBuffer ARRAY_BUFFER (if buffer_created e then Some (next_handle w) else None)),
           Gl (BufferData ARRAY_BUFFER positions STATIC_DRAW)],
        next_handle := (if buffer_created e then Suc (next_handle w) else next_handle w)\<rparr>)"
  by (simp add: initBuffers_def gl_def emit_def fresh_def Let_def)

lemma mount_success:
  assumes "fst (mount e) = Some h"
  shows "snd (mount e) =
      \<lparr>trace = [GetContext ''webgl'',
         Gl (CreateShader VERTEX_SHADER), Gl (ShaderSource 0 vsSource), Gl (CompileShader 0),
         Gl (GetShaderParameter 0 COMPILE_STATUS),
         Gl (CreateShader FRAGMENT_SHADER), Gl (ShaderSource 1 fsSource), Gl (CompileShader 1),
         Gl (GetShaderParameter 1 COMPILE_STATUS),
         Gl CreateProgram, Gl (AttachShader 2 0), Gl (AttachShader 2 1), Gl (LinkProgram 2),
         Gl (GetProgramParameter 2 LINK_STATUS),
         Gl (GetAttribLocation 2 ''aVertexPosition''), Gl (GetUniformLocation 2 ''uTopVertex''),
         Gl CreateBuffer, Gl (BindBuffer ARRAY_BUFFER (position (l_buffers h))),
         Gl (BufferData ARRAY_BUFFER positions STATIC_DRAW)]
         @ frame h (Fin 0, Fin 1) @ [AddEventListener ''mousemove'' h],
       next_handle = (if buffer_created e then 4 else 3),
       topVertexRef = (Fin 0, Fin 1), listeners = [h]\<rparr>"
proof -
  obtain c where c: "canvasRef_current e = Some c" and ctx: "context_available e"
    using assms by (auto simp: mount_def useEffect_def Let_def split: option.splits if_splits)
  let ?w0 = "emit (GetContext ''webgl'') WebGLCanvas"
  obtain p where p: "fst (initShaderProgram e vsSource fsSource ?w0) = Some p"
    using assms c ctx
    by (cases "initShaderProgram e vsSource fsSource ?w0")
       (auto simp: mount_def useEffect_def Let_def split: option.splits)
  note flags = initShaderProgram_Some [OF p]
  have isp: "initShaderProgram e vsSource fsSource ?w0 = (Some 2, ?w0\<lparr>trace := trace ?w0 @
        [Gl (CreateShader VERTEX_SHADER), Gl (ShaderSource 0 vsSource), Gl (CompileShader 0),
         Gl (GetShaderParameter 0 COMPILE_STATUS),
         Gl (CreateShader FRAGMENT_SHADER), Gl (ShaderSource 1 fsSource), Gl (CompileShader 1),
         Gl (GetShaderParameter 1 COMPILE_STATUS),
         Gl CreateProgram, Gl (AttachShader 2 0), Gl (AttachShader 2 1), Gl (LinkProgram 2),
         Gl (GetProgramParameter 2 LINK_STATUS)], next_handle := 3\<rparr>)"
    using flags by (simp add: initShaderProgram_success emit_def WebGLCanvas_def)
  note isp' = isp [unfolded emit_def WebGLCanvas_def, simplified]
  define h' where "h' = \<lparr>l_canvas = c,
       l_programInfo = \<lparr>program = 2, vertexPosition = attrib_location e ''aVertexPosition'',
                         topVertex = uniform_location e ''uTopVertex''\<rparr>,
       l_buffers = \<lparr>position = (if buffer_created e then Some 3 else None)\<rparr>\<rparr>"
  have m: "mount e =
     (Some h', \<lparr>trace = [GetContext ''webgl'',
         Gl (CreateShader VERTEX_SHADER), Gl (ShaderSource 0 vsSource), Gl (CompileShader 0),
         Gl (GetShaderParameter 0 COMPILE_STATUS),
         Gl (CreateShader FRAGMENT_SHADER), Gl (ShaderSource 1 fsSource), Gl (CompileShader 1),
         Gl (GetShaderParameter 1 COMPILE_STATUS),
         Gl CreateProgram, Gl (AttachShader 2 0), Gl (AttachShader 2 1), Gl (LinkProgram 2),
         Gl (GetProgramParameter 2 LINK_STATUS),
         Gl (GetAttribLocation 2 ''aVertexPosition''), Gl (GetUniformLocation 2 ''uTopVertex''),
         Gl CreateBuffer, Gl (BindBuffer ARRAY_BUFFER (position (l_buffers h'))),
         Gl (BufferData ARRAY_BUFFER positions STATIC_DRAW)]
         @ frame h' (Fin 0, Fin 1) @ [AddEventListener ''mousemove'' h'],
       next_handle = (if buffer_created e then 4 else 3),
       topVertexRef = (Fin 0, Fin 1), listeners = [h']\<rparr>)"
    by (simp add: mount_def useEffect_def c ctx isp' initBuffers_unfold drawScene_unfold
          frame_def addEventListener_def gl_def emit_def WebGLCanvas_def Let_def h'_def)
  have "h = h'" using assms m by simp
  then show ?thesis using m by simp
qed

lemma mount_failure:
  assumes "fst (mount e) = None"
  shows "listeners (snd (mount e)) = [] \<and> topVertexRef (snd (mount e)) = (Fin 0, Fin 1)
       \<and> (\<forall>x\<in>set (trace (snd (mount e))). \<not> is_render x \<and> \<not> is_listen x \<and> \<not> is_upload x)"
  using assms
  by (auto simp: mount_def useEffect_def initShaderProgram_def loadShader_unfold
        gl_def emit_def fresh_def WebGLCanvas_def Let_def
        split: option.splits if_splits prod.splits)


lemma mount_env_ok:
  "fst (mount env_ok) = Some h0"
  by (simp add: mount_def useEffect_def env_ok_def h0_def initShaderProgram_def loadShader_unfold
        initBuffers_unfold drawScene_unfold addEventListener_def gl_def emit_def fresh_def
        WebGLCanvas_def Let_def)

text \<open>
  C3. On every initialization run in which context acquisition fails, a shader stage
  fails to compile, or linking fails, the component logs the matching diagnostic (for a
  stage the compiler's log, for the program the linker's log) and returns without a
  cleanup: no command of the frame renderer is issued, no mousemove listener is
  registered, and the effect returns normally, the only outcome this model of the
  source has.
\<close>

theorem init_failure_aborts:
  assumes "context_acquisition_fails e \<or> stage_fails_to_compile e VERTEX_SHADER
           \<or> stage_fails_to_compile e FRAGMENT_SHADER \<or> linking_fails e"
  shows "fst (mount e) = None
       \<and> (context_acquisition_fails e \<longrightarrow>
            ConsoleError ''WebGL isn't available'' None \<in> set (trace (snd (mount e))))
       \<and> (\<forall>t. stage_fails_to_compile e t \<longrightarrow>
            ConsoleError ''An error occurred compiling the shaders:''
              (shader_info_log e t (source_of t)) \<in> set (trace (snd (mount e))))
       \<and> (linking_fails e \<longrightarrow>
            ConsoleError ''Unable to initialize the shader program:'' (program_info_log e)
              \<in> set (trace (snd (mount e))))
       \<and> filter is_error (trace (snd (mount e))) \<noteq> []
       \<and> filter is_render (trace (snd (mount e))) = []
       \<and> filter is_listen (trace (snd (mount e))) = []
       \<and> listeners (snd (mount e)) = []
       \<and> topVertexRef (snd (mount e)) = (Fin 0, Fin 1)"
proof -
  have none: "fst (mount e) = None"
    using assms
    by (auto simp: context_acquisition_fails_def stage_fails_to_compile_def linking_fails_def
          source_of_def mount_def useEffect_def initShaderProgram_def loadShader_unfold
          gl_def emit_def fresh_def Let_def split: option.splits if_splits)
  have ctx: "ConsoleError ''WebGL isn't available'' None \<in> set (trace (snd (mount e)))"
    if "context_acquisition_fails e"
    using that
    by (auto simp: context_acquisition_fails_def mount_def useEffect_def emit_def Let_def)
  have stage: "ConsoleError ''An error occurred compiling the shaders:''
                 (shader_info_log e t (source_of t)) \<in> set (trace (snd (mount e)))"
    if "stage_fails_to_compile e t" for t
    using that
    by (cases t)
       (auto simp: stage_fails_to_compile_def source_of_def mount_def useEffect_def
          initShaderProgram_def loadShader_unfold gl_def emit_def fresh_def Let_def
          split: option.splits if_splits)
  have link: "ConsoleError ''Unable to initialize the shader program:'' (program_info_log e)
                \<in> set (trace (snd (mount e)))"
    if "linking_fails e"
    using that
    by (auto simp: linking_fails_def mount_def useEffect_def
          initShaderProgram_def loadShader_unfold gl_def emit_def fresh_def Let_def)
  have "\<exists>x \<in> set (trace (snd (mount e))). is_error x"
    using assms ctx stage link is_error.simps(1) by blast
  then have err: "filter is_error (trace (snd (mount e))) \<noteq> []"
    by (simp add: filter_empty_conv)
  have rest: "filter is_render (trace (snd (mount e))) = []
       \<and> filter is_listen (trace (snd (mount e))) = []
       \<and> listeners (snd (mount e)) = []
       \<and> topVertexRef (snd (mount e)) = (Fin 0, Fin 1)"
    using mount_failure [OF none] by (simp add: filter_empty_conv)
  show ?thesis using none ctx stage link err rest by blast
qed

theorem init_failure_aborts_witness:
  "fst (mount env_vs_invalid) = None
   \<and> ConsoleError ''An error occurred compiling the shaders:'' (Some ''ERROR: 0:1: syntax error'')
        \<in> set (trace (snd (mount env_vs_invalid)))
   \<and> filter is_render (trace (snd (mount env_vs_invalid))) = []
   \<and> filter is_listen (trace (snd (mount env_vs_invalid))) = []
   \<and> listeners (snd (mount env_vs_invalid)) = []"
proof -
  have f: "stage_fails_to_compile env_vs_invalid VERTEX_SHADER"
    by (simp add: stage_fails_to_compile_def env_vs_invalid_def env_ok_def)
  have l: "shader_info_log env_vs_invalid VERTEX_SHADER (source_of VERTEX_SHADER)
             = Some ''ERROR: 0:1: syntax error''"
    by (simp add: env_vs_invalid_def)
  have r: "\<forall>t. stage_fails_to_compile env_vs_invalid t \<longrightarrow>
            ConsoleError ''An error occurred compiling the shaders:''
              (shader_info_log env_vs_invalid t (source_of t))
              \<in> set (trace (snd (mount env_vs_invalid)))"
    and r': "fst (mount env_vs_invalid) = None"
      "filter is_render (trace (snd (mount env_vs_invalid))) = []"
      "filter is_listen (trace (snd (mount env_vs_invalid))) = []"
      "listeners (snd (mount env_vs_invalid)) = []"
    using init_failure_aborts [of env_vs_invalid] f by blast+
  from r f l have "ConsoleError ''An error occurred compiling the shaders:''
      (Some ''ERROR: 0:1: syntax error'') \<in> set (trace (snd (mount env_vs_invalid)))"
    by metis
  with r' show ?thesis by blast
qed

text \<open>
  C4. After a successful mount and any sequence of pointer-move events the trace holds
  exactly one buffer upload, of top \<open>(0, 1)\<close>, bottom-left \<open>(-1, -1)\<close>, bottom-right
  \<open>(1, -1)\<close>; a further pointer event adds no upload: it appends one frame, whose
  commands differ from those of any other frame in the two uniform values only.
\<close>

theorem geometry_fixed:
  assumes "fst (mount e) = Some h"
  shows "filter is_upload (trace (dispatchAll evs (snd (mount e)))) =
           [Gl (BufferData ARRAY_BUFFER
                  [Fin 0, Fin 1, Fin (- 1), Fin (- 1), Fin 1, Fin (- 1)] STATIC_DRAW)]
       \<and> (let w = dispatchAll evs (snd (mount e)); w' = dispatchEvent ev w
          in trace w' = trace w @ frame h (topVertexRef w')
           \<and> filter is_upload (trace w') = filter is_upload (trace w)
           \<and> next_handle w' = next_handle w \<and> listeners w' = listeners w)"
proof -
  let ?up = "[Gl (BufferData ARRAY_BUFFER positions STATIC_DRAW)]"
  have l0: "listeners (snd (mount e)) = [h]"
    by (simp add: mount_success [OF assms])
  have u0: "filter is_upload (trace (snd (mount e))) = ?up"
    by (simp add: mount_success [OF assms] frame_def)
  have step: "filter is_upload (trace (handleMouseMove h ev s)) = ?up"
    if "filter is_upload (trace s) = ?up" for s ev
    using that by (simp add: handleMouseMove_trace frame_def)
  have inv: "filter is_upload (trace (dispatchAll evs (snd (mount e)))) = ?up
           \<and> listeners (dispatchAll evs (snd (mount e))) = [h]"
    by (rule dispatchAll_single [where P = "\<lambda>s. filter is_upload (trace s) = ?up", OF l0 u0 step])
  let ?w = "dispatchAll evs (snd (mount e))"
  have d: "dispatchEvent ev ?w = handleMouseMove h ev ?w"
    using inv by (simp add: dispatchEvent_single)
  have t: "trace (dispatchEvent ev ?w) = trace ?w @ frame h (topVertexRef (dispatchEvent ev ?w))"
    unfolding d by (rule handleMouseMove_trace)
  have n: "next_handle (dispatchEvent ev ?w) = next_handle ?w"
    unfolding d by (simp add: handleMouseMove_def drawScene_unfold Let_def)
  have u: "filter is_upload (trace (dispatchEvent ev ?w)) = filter is_upload (trace ?w)"
    unfolding d using inv step by simp
  show ?thesis
    using inv t n u d by (simp add: positions_def Let_def)
qed

theorem geometry_fixed_witness:
  "filter is_upload (trace (dispatchAll [ev0, ev0] (snd (mount env_ok)))) =
     [Gl (BufferData ARRAY_BUFFER
            [Fin 0, Fin 1, Fin (- 1), Fin (- 1), Fin 1, Fin (- 1)] STATIC_DRAW)]"
  using geometry_fixed [OF mount_env_ok, of "[ev0, ev0]"] by simp

text \<open>
  C5. On a successful mount the trace is: the set-up calls, none of them a command of
  the renderer or a listener registration; the buffer upload; one frame drawn with
  top vertex exactly \<open>(0, 1)\<close>; the registration of the mousemove listener. So exactly
  one draw is performed, after the upload and before the listener exists, and with it
  before any pointer event can be processed.
\<close>

theorem initial_draw:
  assumes "fst (mount e) = Some h"
  shows "\<exists>pre. trace (snd (mount e)) =
             pre @ [Gl (BufferData ARRAY_BUFFER positions STATIC_DRAW)]
                 @ frame h (Fin 0, Fin 1) @ [AddEventListener ''mousemove'' h]
           \<and> filter is_render pre = [] \<and> filter is_listen pre = []
           \<and> length (filter is_draw (trace (snd (mount e)))) = 1
           \<and> topVertexRef (snd (mount e)) = (Fin 0, Fin 1)
           \<and> listeners (snd (mount e)) = [h]"
proof -
  let ?pre = "[GetContext ''webgl'',
         Gl (CreateShader VERTEX_SHADER), Gl (ShaderSource 0 vsSource), Gl (CompileShader 0),
         Gl (GetShaderParameter 0 COMPILE_STATUS),
         Gl (CreateShader FRAGMENT_SHADER), Gl (ShaderSource 1 fsSource), Gl (CompileShader 1),
         Gl (GetShaderParameter 1 COMPILE_STATUS),
         Gl CreateProgram, Gl (AttachShader 2 0), Gl (AttachShader 2 1), Gl (LinkProgram 2),
         Gl (GetProgramParameter 2 LINK_STATUS),
         Gl (GetAttribLocation 2 ''aVertexPosition''), Gl (GetUniformLocation 2 ''uTopVertex''),
         Gl CreateBuffer, Gl (BindBuffer ARRAY_BUFFER (position (l_buffers h)))]"
  note m = mount_success [OF assms]
  have "trace (snd (mount e)) =
          ?pre @ [Gl (BufferData ARRAY_BUFFER positions STATIC_DRAW)]
               @ frame h (Fin 0, Fin 1) @ [AddEventListener ''mousemove'' h]"
    by (simp add: m)
  moreover have "filter is_render ?pre = []" "filter is_listen ?pre = []" by simp_all
  moreover have "length (filter is_draw (trace (snd (mount e)))) = 1"
    by (simp add: m frame_def)
  moreover have "topVertexRef (snd (mount e)) = (Fin 0, Fin 1)" "listeners (snd (mount e)) = [h]"
    by (simp_all add: m)
  ultimately show ?thesis by blast
qed

theorem initial_draw_witness:
  "\<exists>pre. trace (snd (mount env_ok)) =
             pre @ [Gl (BufferData ARRAY_BUFFER positions STATIC_DRAW)]
                 @ frame h0 (Fin 0, Fin 1) @ [AddEventListener ''mousemove'' h0]
           \<and> filter is_render pre = [] \<and> filter is_listen pre = []
           \<and> length (filter is_draw (trace (snd (mount env_ok)))) = 1
           \<and> topVertexRef (snd (mount env_ok)) = (Fin 0, Fin 1)
           \<and> listeners (snd (mount env_ok)) = [h0]"
  using initial_draw [OF mount_env_ok] .

subsection \<open>Deletion calls\<close>










subsection \<open>Unmounting\<close>

text \<open>
  C9. After unmount, whatever pointer events came before, the canvas has no mousemove
  listener: the one registered at mount was there until then and is removed by the
  cleanup. Pointer events delivered afterwards leave the whole state as it is: no
  update of the top vertex and no redraw.
\<close>

theorem unmount_removes_listener:
  "let w1 = dispatchAll before (snd (mount e)); w2 = unmount (fst (mount e)) w1
   in listeners w2 = []
    \<and> dispatchAll after w2 = w2
    \<and> (\<forall>h. fst (mount e) = Some h \<longrightarrow>
          listeners w1 = [h] \<and> trace w2 = trace w1 @ [RemoveEventListener ''mousemove'' h])"
proof -
  let ?w1 = "dispatchAll before (snd (mount e))"
  let ?w2 = "unmount (fst (mount e)) ?w1"
  have l1: "listeners ?w1 = [h]" if "fst (mount e) = Some h" for h
  proof -
    have "listeners (snd (mount e)) = [h]" by (simp add: mount_success [OF that])
    from dispatchAll_single [where P = "\<lambda>s. True", OF this] show ?thesis by simp
  qed
  have l2: "listeners ?w2 = []"
  proof (cases "fst (mount e)")
    case None
    then have "listeners (snd (mount e)) = []" using mount_failure by blast
    with None show ?thesis by (simp add: dispatchAll_none unmount_def)
  next
    case (Some h)
    then show ?thesis
      using l1 [OF Some] by (simp add: unmount_def removeEventListener_def emit_def)
  qed
  have t2: "trace ?w2 = trace ?w1 @ [RemoveEventListener ''mousemove'' h]"
    if "fst (mount e) = Some h" for h
    using that by (simp add: unmount_def removeEventListener_def emit_def)
  show ?thesis
    unfolding Let_def using l2 dispatchAll_none [OF l2] l1 t2 by blast
qed

theorem unmount_removes_listener_witness:
  "listeners (dispatchAll [ev0] (snd (mount env_ok))) = [h0]
   \<and> listeners (unmount (fst (mount env_ok)) (dispatchAll [ev0] (snd (mount env_ok)))) = []
   \<and> dispatchAll [ev0, ev0] (unmount (fst (mount env_ok)) (dispatchAll [ev0] (snd (mount env_ok))))
       = unmount (fst (mount env_ok)) (dispatchAll [ev0] (snd (mount env_ok)))"
  using unmount_removes_listener [of "[ev0]" env_ok "[ev0, ev0]"] mount_env_ok
  by (simp add: Let_def)

subsection \<open>Loading both stages\<close>

text \<open>
  C10. \<open>initShaderProgram\<close> runs \<open>loadShader\<close> for the vertex stage and then for the
  fragment stage before it looks at either result: whatever the vertex stage did, the
  calls of the fragment stage's \<open>loadShader\<close> are in the trace, its shader is requested
  and, once that object exists, given its source and compiled. When both stages fail to
  compile, each logs its own diagnostic, the vertex stage first, and the function
  returns null.
\<close>

theorem both_stages_loaded:
  "let w1 = snd (loadShader e VERTEX_SHADER vs w);
       w2 = snd (loadShader e FRAGMENT_SHADER fs w1);
       r = initShaderProgram e vs fs w
   in prefix (trace w2) (trace (snd r))
    \<and> Gl (CreateShader FRAGMENT_SHADER) \<in> set (trace (snd r))
    \<and> (shader_created e FRAGMENT_SHADER \<longrightarrow>
          Gl (ShaderSource (next_handle w1) fs) \<in> set (trace (snd r))
          \<and> Gl (CompileShader (next_handle w1)) \<in> set (trace (snd r)))
    \<and> (shader_created e VERTEX_SHADER \<and> \<not> compile_status e VERTEX_SHADER vs
        \<and> shader_created e FRAGMENT_SHADER \<and> \<not> compile_status e FRAGMENT_SHADER fs \<longrightarrow>
          fst r = None
          \<and> filter is_error (trace (snd r)) = filter is_error (trace w) @
              [ConsoleError ''An error occurred compiling the shaders:''
                 (shader_info_log e VERTEX_SHADER vs),
               ConsoleError ''An error occurred compiling the shaders:''
                 (shader_info_log e FRAGMENT_SHADER fs)])"
proof -
  obtain v w1 where v: "loadShader e VERTEX_SHADER vs w = (v, w1)" by (cases "loadShader e VERTEX_SHADER vs w")
  obtain f w2 where f: "loadShader e FRAGMENT_SHADER fs w1 = (f, w2)" by (cases "loadShader e FRAGMENT_SHADER fs w1")
  have pre: "prefix (trace w2) (trace (snd (initShaderProgram e vs fs w)))"
    by (simp add: initShaderProgram_def v f gl_def emit_def fresh_def Let_def
          split: option.splits)
  have cs: "Gl (CreateShader FRAGMENT_SHADER) \<in> set (trace w2)"
    using f by (auto simp: loadShader_unfold split: if_splits)
  have cc: "Gl (ShaderSource (next_handle w1) fs) \<in> set (trace w2)
          \<and> Gl (CompileShader (next_handle w1)) \<in> set (trace w2)"
    if "shader_created e FRAGMENT_SHADER"
    using f that by (auto simp: loadShader_unfold split: if_splits)
  have sub: "set (trace w2) \<subseteq> set (trace (snd (initShaderProgram e vs fs w)))"
    using pre by (rule set_mono_prefix)
  have both: "fst (initShaderProgram e vs fs w) = None
     \<and> filter is_error (trace (snd (initShaderProgram e vs fs w))) = filter is_error (trace w) @
              [ConsoleError ''An error occurred compiling the shaders:''
                 (shader_info_log e VERTEX_SHADER vs),
               ConsoleError ''An error occurred compiling the shaders:''
                 (shader_info_log e FRAGMENT_SHADER fs)]"
    if "shader_created e VERTEX_SHADER \<and> \<not> compile_status e VERTEX_SHADER vs
        \<and> shader_created e FRAGMENT_SHADER \<and> \<not> compile_status e FRAGMENT_SHADER fs"
    using that by (simp add: initShaderProgram_def loadShader_unfold)
  show ?thesis
    unfolding Let_def v f snd_conv
    using pre cs cc sub both by blast
qed

theorem both_stages_loaded_witness:
  "fst (initShaderProgram env_both_invalid vsSource fsSource WebGLCanvas) = None
   \<and> filter is_error (trace (snd (initShaderProgram env_both_invalid vsSource fsSource WebGLCanvas)))
       = [ConsoleError ''An error occurred compiling the shaders:'' (Some ''ERROR: vertex''),
          ConsoleError ''An error occurred compiling the shaders:'' (Some ''ERROR: fragment'')]
   \<and> Gl (CompileShader 1) \<in> set (trace (snd (initShaderProgram env_both_invalid vsSource fsSource WebGLCanvas)))"
proof -
  have n: "next_handle (snd (loadShader env_both_invalid VERTEX_SHADER vsSource WebGLCanvas)) = 1"
    by (simp add: loadShader_unfold env_both_invalid_def env_ok_def WebGLCanvas_def)
  show ?thesis
    using both_stages_loaded [of env_both_invalid vsSource WebGLCanvas fsSource] n
    by (simp add: Let_def env_both_invalid_def env_ok_def WebGLCanvas_def)
qed

end
